theory Spec2Isabelle
  imports Main "HOL-Library.Char_ord" "HOL-Library.List_Lexorder" "HOL-Library.Product_Lexorder"
    "HOL-Library.Multiset"
begin

section \<open>The extension catalog of xk6-subcommand-explore\<close>

text \<open>
  The development follows the Go package \<open>explore\<close>: \<open>catalog.go\<close> (the descriptor type,
  \<open>getExtensionCatalog\<close>, \<open>findLatest\<close>), the options file (the \<open>kind\<close> and \<open>tier\<close> flag types
  with their \<open>filter\<close> methods), \<open>cmd.go\<close> (\<open>filterExtensions\<close>, \<open>sortExtensions\<close>) and
  \<open>output.go\<close> (\<open>extensionType\<close>, \<open>extensionTier\<close>).

  Go strings are byte sequences compared bytewise; they are \<open>string\<close> here, ordered
  lexicographically over the order of the character codes.
\<close>

subsection \<open>Descriptors\<close>

text \<open>The struct \<open>extension\<close> of \<open>catalog.go\<close>. A nil slice and an empty slice are both \<open>[]\<close>:
  the code only ever takes their length or ranges over them.\<close>

record extension =
  Module :: string
  Tier :: string
  Description :: string
  Latest :: string
  Versions :: "string list"
  Imports :: "string list"
  Outputs :: "string list"
  Subcommands :: "string list"

text \<open>
  A catalog is a Go \<open>map[string]*extension\<close>. Ranging over a Go map visits every entry once,
  in an order the runtime chooses; a catalog is therefore the sequence of its entries in the
  order of one such traversal, and every statement below holds for every order. The pointers
  of a catalog are taken to be valid: the decoder allocates one descriptor per entry, and the
  model does not cover a catalog holding a nil pointer.
\<close>

type_synonym catalog = "(string \<times> extension) list"

subsection \<open>The kind and tier options\<close>

type_synonym kind = string

type_synonym tier = string

definition kindJavaScript :: kind where
  "kindJavaScript = ''javascript''"

definition kindOutput :: kind where
  "kindOutput = ''output''"

definition kindSubcommand :: kind where
  "kindSubcommand = ''subcommand''"

definition tierOfficial :: tier where
  "tierOfficial = ''official''"

definition tierCommunity :: tier where
  "tierCommunity = ''community''"

datatype option_error = errInvalidKind | errInvalidTier

text \<open>\<open>Set\<close> stores the flag's value when it is one of the allowed literals and otherwise
  leaves the receiver as it was and returns the error.\<close>

definition kind_Set :: "kind \<Rightarrow> string \<Rightarrow> kind \<times> option_error option" where
  "kind_Set k s =
     (if s = kindJavaScript \<or> s = kindOutput \<or> s = kindSubcommand then (s, None)
      else (k, Some errInvalidKind))"

definition tier_Set :: "tier \<Rightarrow> string \<Rightarrow> tier \<times> option_error option" where
  "tier_Set t s =
     (if s = tierOfficial \<or> s = tierCommunity then (s, None)
      else (t, Some errInvalidTier))"

text \<open>The \<open>filter\<close> methods have pointer receivers; \<open>None\<close> is the nil receiver. The zero
  value of an option that was never set is the empty string, which falls to \<open>default\<close>.\<close>

fun kind_filter :: "kind option \<Rightarrow> extension \<Rightarrow> bool" where
  "kind_filter None ext = True"
| "kind_filter (Some k) ext =
     (if k = kindJavaScript then length (Imports ext) > 0
      else if k = kindOutput then length (Outputs ext) > 0
      else if k = kindSubcommand then length (Subcommands ext) > 0
      else True)"

fun tier_filter :: "tier option \<Rightarrow> extension \<Rightarrow> bool" where
  "tier_filter None ext = True"
| "tier_filter (Some t) ext =
     (if t = tierOfficial then Tier ext = ''official''
      else if t = tierCommunity then Tier ext = ''community''
      else True)"

subsection \<open>Filtering\<close>

text \<open>The loop of \<open>filterExtensions\<close> over the entries still to visit, with the slice
  \<open>filtered\<close> built so far.\<close>

fun filterLoop :: "kind \<Rightarrow> tier \<Rightarrow> catalog \<Rightarrow> extension list \<Rightarrow> extension list" where
  "filterLoop k t [] filtered = filtered"
| "filterLoop k t ((key, ext) # rest) filtered =
     (if Module ext = ''go.k6.io/k6'' then filterLoop k t rest filtered
      else if kind_filter (Some k) ext \<and> tier_filter (Some t) ext
        then filterLoop k t rest (filtered @ [ext])
      else filterLoop k t rest filtered)"

definition filterExtensions :: "catalog \<Rightarrow> kind \<Rightarrow> tier \<Rightarrow> extension list" where
  "filterExtensions catalog k t = filterLoop k t catalog []"

text \<open>The test an entry has to pass to be appended by the loop.\<close>

definition passes :: "kind \<Rightarrow> tier \<Rightarrow> extension \<Rightarrow> bool" where
  "passes k t ext \<longleftrightarrow>
     Module ext \<noteq> ''go.k6.io/k6'' \<and> kind_filter (Some k) ext \<and> tier_filter (Some t) ext"

subsection \<open>Display classification\<close>

text \<open>\<open>extensionType\<close> and \<open>extensionTier\<close> of \<open>output.go\<close>: the first populated facet
  decides the displayed type; every tier but \<open>official\<close> is displayed as community.\<close>

definition extensionType :: "extension \<Rightarrow> string" where
  "extensionType e =
     (if length (Imports e) > 0 then ''JavaScript''
      else if length (Outputs e) > 0 then ''Output''
      else if length (Subcommands e) > 0 then ''Subcommand''
      else '''')"

definition extensionTier :: "extension \<Rightarrow> string" where
  "extensionTier e = (if Tier e = ''official'' then ''Official'' else ''Community'')"

subsection \<open>Sorting\<close>

text \<open>The comparison function that \<open>sortExtensions\<close> hands to \<open>sort.Slice\<close>, on the two
  descriptors found at the indices it is called with.\<close>

definition less_ext :: "extension \<Rightarrow> extension \<Rightarrow> bool" where
  "less_ext a b =
     (if Tier a \<noteq> Tier b then Tier a > Tier b
      else if extensionType a \<noteq> extensionType b then extensionType a < extensionType b
      else Module a < Module b)"

text \<open>
  \<open>sort.Slice\<close> belongs to Go's standard library. Its contract is that the slice is permuted
  into an order in which no element is less than an earlier one; it is not stable. The model
  is the insertion sort the library runs on a slice of at most twelve elements: each element
  in turn is swapped towards the front for as long as it is less than its left neighbour.
  \<open>bubble\<close> is the inner loop, on the part of the slice already ordered, held back to front
  (the head is the left neighbour); \<open>insertionLoop\<close> is the outer loop. On a longer slice the
  library runs a pattern-defeating quicksort, whose result can differ from the model's only
  in the order of elements neither of which is less than the other (\<open>sort_contract_keys\<close>
  below), and which, like the insertion sort, leaves a slice that is in order as it is.
\<close>

fun bubble :: "('a \<Rightarrow> 'a \<Rightarrow> bool) \<Rightarrow> 'a \<Rightarrow> 'a list \<Rightarrow> 'a list" where
  "bubble lt x [] = [x]"
| "bubble lt x (y # ys) = (if lt x y then y # bubble lt x ys else x # y # ys)"

fun insertionLoop :: "('a \<Rightarrow> 'a \<Rightarrow> bool) \<Rightarrow> 'a list \<Rightarrow> 'a list \<Rightarrow> 'a list" where
  "insertionLoop lt front [] = rev front"
| "insertionLoop lt front (x # xs) = insertionLoop lt (bubble lt x front) xs"

definition sort_Slice :: "('a \<Rightarrow> 'a \<Rightarrow> bool) \<Rightarrow> 'a list \<Rightarrow> 'a list" where
  "sort_Slice lt xs = insertionLoop lt [] xs"

definition sortExtensions :: "extension list \<Rightarrow> extension list" where
  "sortExtensions extensions = sort_Slice less_ext extensions"

subsection \<open>Semantic versions\<close>

text \<open>
  \<open>findLatest\<close> uses three operations of the library \<open>github.com/Masterminds/semver/v3\<close>:
  \<open>NewVersion\<close>, \<open>GreaterThan\<close> and \<open>Original\<close>. The library is not part of the repository,
  so its parser and its comparison are parameters: \<open>parse\<close> yields the parsed content of a
  version string, or \<open>None\<close> where \<open>NewVersion\<close> returns an error, and \<open>gt\<close> compares two
  parsed contents. A \<open>Version\<close> keeps the string it was parsed from, which is what
  \<open>Original\<close> returns.
\<close>

record 'v Version =
  parsed :: 'v
  original :: string

definition NewVersion :: "(string \<Rightarrow> 'v option) \<Rightarrow> string \<Rightarrow> 'v Version option" where
  "NewVersion parse s =
     (case parse s of None \<Rightarrow> None | Some p \<Rightarrow> Some \<lparr>parsed = p, original = s\<rparr>)"

definition GreaterThan :: "('v \<Rightarrow> 'v \<Rightarrow> bool) \<Rightarrow> 'v Version \<Rightarrow> 'v Version \<Rightarrow> bool" where
  "GreaterThan gt v w = gt (parsed v) (parsed w)"

text \<open>The loop of \<open>findLatest\<close> over \<open>versions[1:]\<close>, with the candidate \<open>latest\<close>.\<close>

fun latestLoop ::
  "(string \<Rightarrow> 'v option) \<Rightarrow> ('v \<Rightarrow> 'v \<Rightarrow> bool) \<Rightarrow> 'v Version \<Rightarrow> string list \<Rightarrow> 'v Version" where
  "latestLoop parse gt latest [] = latest"
| "latestLoop parse gt latest (v # vs) =
     (case NewVersion parse v of
        None \<Rightarrow> latestLoop parse gt latest vs
      | Some ver \<Rightarrow>
          if GreaterThan gt ver latest then latestLoop parse gt ver vs
          else latestLoop parse gt latest vs)"

definition findLatest ::
  "(string \<Rightarrow> 'v option) \<Rightarrow> ('v \<Rightarrow> 'v \<Rightarrow> bool) \<Rightarrow> string list \<Rightarrow> string" where
  "findLatest parse gt versions =
     (case versions of
        [] \<Rightarrow> ''''
      | v0 # rest \<Rightarrow>
          (case NewVersion parse v0 of
             None \<Rightarrow> ''''
           | Some latest \<Rightarrow> original (latestLoop parse gt latest rest)))"

subsection \<open>Fetching the catalog\<close>

text \<open>
  Errors are values. \<open>errFetchExtensionCatalog\<close> is the package's sentinel; \<open>Wrapped e s\<close> is
  the error that \<open>fmt.Errorf\<close> makes from the format \<open>%w: %s\<close>; \<open>External m\<close> is an error made
  outside the package (by \<open>net/http\<close> or \<open>encoding/json\<close>), known by its message.
\<close>

datatype error = errFetchExtensionCatalog | Wrapped error string | External string



text \<open>
  What the network gives back for one GET: building the request fails, the round trip fails
  (no connection, timeout, cancelled context), or a response arrives with its status code,
  its status line and its body.
\<close>

record response =
  StatusCode :: nat
  Status :: string
  Body :: string

datatype exchange = NewRequestFailed error | DoFailed error | Responded response

definition StatusOK :: nat where
  "StatusOK = 200"

text \<open>The loop that overwrites \<open>Latest\<close> in every descriptor of the decoded catalog.\<close>

fun updateLatest ::
  "(string \<Rightarrow> 'v option) \<Rightarrow> ('v \<Rightarrow> 'v \<Rightarrow> bool) \<Rightarrow> catalog \<Rightarrow> catalog" where
  "updateLatest parse gt [] = []"
| "updateLatest parse gt ((key, ext) # rest) =
     (key, ext\<lparr>Latest := findLatest parse gt (Versions ext)\<rparr>) # updateLatest parse gt rest"

text \<open>
  \<open>getExtensionCatalog\<close>, given what the network does for a URL (\<open>get\<close>) and the JSON decoder
  for a catalog (\<open>decode\<close>, an error or the decoded map). The result is Go's pair: the catalog
  or nil, and the error or nil.
\<close>

definition getExtensionCatalog ::
  "(string \<Rightarrow> exchange) \<Rightarrow> (string \<Rightarrow> error + catalog) \<Rightarrow>
   (string \<Rightarrow> 'v option) \<Rightarrow> ('v \<Rightarrow> 'v \<Rightarrow> bool) \<Rightarrow> string \<Rightarrow> catalog option \<times> error option" where
  "getExtensionCatalog get decode parse gt url =
     (case get url of
        NewRequestFailed err \<Rightarrow> (None, Some err)
      | DoFailed err \<Rightarrow> (None, Some err)
      | Responded resp \<Rightarrow>
          if StatusCode resp \<noteq> StatusOK
          then (None, Some (Wrapped errFetchExtensionCatalog (Status resp)))
          else (case decode (Body resp) of
                  Inl err \<Rightarrow> (None, Some err)
                | Inr catalog \<Rightarrow> (Some (updateLatest parse gt catalog), None)))"

definition defaultExtensionCatalogURL :: string where
  "defaultExtensionCatalogURL = ''https://registry.k6.io/catalog.json''"

definition getDefaultExtensionCatalog ::
  "(string \<Rightarrow> exchange) \<Rightarrow> (string \<Rightarrow> error + catalog) \<Rightarrow>
   (string \<Rightarrow> 'v option) \<Rightarrow> ('v \<Rightarrow> 'v \<Rightarrow> bool) \<Rightarrow> catalog option \<times> error option" where
  "getDefaultExtensionCatalog get decode parse gt =
     getExtensionCatalog get decode parse gt defaultExtensionCatalogURL"

subsection \<open>A reference instance of the version library\<close>

text \<open>
  For evaluating \<open>findLatest\<close> on concrete tags: version strings of the form
  \<open>[v]MAJOR[.MINOR[.PATCH]][-PRERELEASE][+BUILD]\<close>, ordered by the precedence rules of
  semantic versioning. The parsed content is a key whose lexicographic order is that
  precedence: the three numbers, then whether the version is a release (a release is above
  its pre-releases), then the pre-release identifiers, a numeric identifier (by value) below
  an alphanumeric one (by bytes). Build metadata plays no part in the order.
\<close>

type_synonym ident = "bool \<times> nat \<times> string"

type_synonym semver_key = "nat \<times> nat \<times> nat \<times> bool \<times> ident list"

definition isDigit :: "char \<Rightarrow> bool" where
  "isDigit c \<longleftrightarrow> CHR ''0'' \<le> c \<and> c \<le> CHR ''9''"

definition isNumber :: "string \<Rightarrow> bool" where
  "isNumber s \<longleftrightarrow> s \<noteq> [] \<and> list_all isDigit s"

definition digitsToNat :: "string \<Rightarrow> nat" where
  "digitsToNat ds = foldl (\<lambda>n c. 10 * n + (of_char c - 48)) 0 ds"

fun splitOn :: "char \<Rightarrow> string \<Rightarrow> string list" where
  "splitOn d [] = [[]]"
| "splitOn d (c # cs) =
     (if c = d then [] # splitOn d cs
      else (case splitOn d cs of [] \<Rightarrow> [[c]] | p # ps \<Rightarrow> (c # p) # ps))"

definition identKey :: "string \<Rightarrow> ident" where
  "identKey s = (if isNumber s then (False, digitsToNat s, '''') else (True, 0, s))"

definition segment :: "string list \<Rightarrow> nat \<Rightarrow> nat" where
  "segment segs i = (if i < length segs then digitsToNat (segs ! i) else 0)"

definition semverParse :: "string \<Rightarrow> semver_key option" where
  "semverParse s =
     (let s1 = (case s of [] \<Rightarrow> s | c # r \<Rightarrow> if c = CHR ''v'' then r else s);
          body = takeWhile (\<lambda>c. c \<noteq> CHR ''+'') s1;
          core = takeWhile (\<lambda>c. c \<noteq> CHR ''-'') body;
          hasPre = (length core < length body);
          ids = splitOn (CHR ''.'') (drop (Suc (length core)) body);
          segs = splitOn (CHR ''.'') core
      in if length segs \<le> 3 \<and> list_all isNumber segs
            \<and> (if hasPre then list_all (\<lambda>i. i \<noteq> []) ids else True)
         then Some (segment segs 0, segment segs 1, segment segs 2, \<not> hasPre,
                    if hasPre then map identKey ids else [])
         else None)"

definition semverGreater :: "semver_key \<Rightarrow> semver_key \<Rightarrow> bool" where
  "semverGreater a b \<longleftrightarrow> b < a"

subsection \<open>Example descriptors\<close>

text \<open>An official JavaScript extension, the host tool's own entry, a community output
  extension, a descriptor with no tier on the wire, an official descriptor with no facet at
  all, an official output extension and an official subcommand extension; a catalog of four
  of them, and a slice of six to sort.\<close>

definition ext_sql :: extension where
  "ext_sql = \<lparr>Module = ''github.com/grafana/xk6-sql'', Tier = ''official'',
     Description = ''Load-test SQL databases'', Latest = ''v0.0.1'',
     Versions = [''v1.0.0'', ''v0.9.0''], Imports = [''k6/x/sql''], Outputs = [],
     Subcommands = []\<rparr>"

definition ext_k6 :: extension where
  "ext_k6 = \<lparr>Module = ''go.k6.io/k6'', Tier = ''official'', Description = '''',
     Latest = '''', Versions = [''v1.0.0''], Imports = [], Outputs = [], Subcommands = []\<rparr>"

definition ext_dashboard :: extension where
  "ext_dashboard = \<lparr>Module = ''github.com/grafana/xk6-dashboard'', Tier = ''community'',
     Description = ''Web dashboard'', Latest = '''', Versions = [''v0.7.0'', ''v0.7.2''],
     Imports = [], Outputs = [''dashboard''], Subcommands = []\<rparr>"

definition ext_untiered :: extension where
  "ext_untiered = \<lparr>Module = ''github.com/acme/xk6-plain'', Tier = '''', Description = '''',
     Latest = '''', Versions = [], Imports = [''k6/x/plain''], Outputs = [], Subcommands = []\<rparr>"

definition ext_bare :: extension where
  "ext_bare = \<lparr>Module = ''github.com/zed/xk6-bare'', Tier = ''official'', Description = '''',
     Latest = '''', Versions = [''v0.1.0''], Imports = [], Outputs = [], Subcommands = []\<rparr>"

definition example_catalog :: catalog where
  "example_catalog =
     [(''dashboard'', ext_dashboard), (''k6'', ext_k6), (''plain'', ext_untiered),
      (''sql'', ext_sql)]"

definition ext_output_official :: extension where
  "ext_output_official = \<lparr>Module = ''github.com/grafana/xk6-output-kafka'', Tier = ''official'',
     Description = '''', Latest = '''', Versions = [''v0.3.0''], Imports = [],
     Outputs = [''xk6-kafka''], Subcommands = []\<rparr>"

definition ext_subcommand :: extension where
  "ext_subcommand = \<lparr>Module = ''github.com/grafana/xk6-subcommand-explore'', Tier = ''official'',
     Description = '''', Latest = '''', Versions = [], Imports = [], Outputs = [],
     Subcommands = [''explore'']\<rparr>"

definition example_extensions :: "extension list" where
  "example_extensions =
     [ext_dashboard, ext_sql, ext_subcommand, ext_bare, ext_untiered, ext_output_official]"




subsection \<open>The order the specification describes\<close>

text \<open>
  For comparison with \<open>less_ext\<close> only, after the words of the specification: tier
  descending, then the kind classification in the order javascript, output, subcommand,
  none (with the precedence of the display), then the module ascending.
\<close>

definition spec_kind_rank :: "extension \<Rightarrow> nat" where
  "spec_kind_rank e =
     (if Imports e \<noteq> [] then 0 else if Outputs e \<noteq> [] then 1
      else if Subcommands e \<noteq> [] then 2 else 3)"

definition spec_less :: "extension \<Rightarrow> extension \<Rightarrow> bool" where
  "spec_less a b =
     (if Tier a \<noteq> Tier b then Tier a > Tier b
      else if spec_kind_rank a \<noteq> spec_kind_rank b then spec_kind_rank a < spec_kind_rank b
      else Module a < Module b)"

definition spec_ordered :: "extension list \<Rightarrow> bool" where
  "spec_ordered xs \<longleftrightarrow> sorted_wrt (\<lambda>a b. \<not> spec_less b a) xs"

subsection \<open>The keys of the comparison\<close>

text \<open>The three fields \<open>less_ext\<close> looks at, and the order of two such triples in which the
  first does not come after the second.\<close>

definition sort_key :: "extension \<Rightarrow> string \<times> string \<times> string" where
  "sort_key e = (Tier e, extensionType e, Module e)"

definition key_le :: "string \<times> string \<times> string \<Rightarrow> string \<times> string \<times> string \<Rightarrow> bool" where
  "key_le p q = (case p of (t1, k1, m1) \<Rightarrow> case q of (t2, k2, m2) \<Rightarrow>
     t2 < t1 \<or> t1 = t2 \<and> (k1 < k2 \<or> k1 = k2 \<and> m1 \<le> m2))"

section \<open>Properties of filtering\<close>

lemma filterLoop_filter:
  "filterLoop k t c filtered = filtered @ filter (passes k t) (map snd c)"
  by (induction k t c filtered rule: filterLoop.induct)
    (simp_all add: passes_def del: kind_filter.simps tier_filter.simps)

lemma filterExtensions_filter:
  "filterExtensions c k t = filter (passes k t) (map snd c)"
  by (simp add: filterExtensions_def filterLoop_filter)

lemmas example_defs =
  ext_sql_def ext_k6_def ext_dashboard_def ext_untiered_def ext_bare_def example_catalog_def
  ext_output_official_def ext_subcommand_def

lemmas option_defs =
  kindJavaScript_def kindOutput_def kindSubcommand_def tierOfficial_def tierCommunity_def

lemma kind_filter_unset: "kind_filter (Some '''') e"
  by (simp add: option_defs)

lemma tier_filter_unset: "tier_filter (Some '''') e"
  by (simp add: option_defs)

text \<open>
  C5: for every catalog, in whatever order its entries are visited, and for every value of
  the kind and tier options (the empty string, an allowed literal or anything else), no
  descriptor in the output of \<open>filterExtensions\<close> has the module \<open>go.k6.io/k6\<close>.
\<close>

theorem filterExtensions_excludes_self:
  "ext \<in> set (filterExtensions c k t) \<Longrightarrow> Module ext \<noteq> ''go.k6.io/k6''"
  by (simp add: filterExtensions_filter passes_def del: kind_filter.simps tier_filter.simps)

theorem filterExtensions_excludes_self_witness:
  "filterExtensions example_catalog '''' '''' = [ext_dashboard, ext_untiered, ext_sql]
   \<and> snd (example_catalog ! 1) = ext_k6
   \<and> Module ext_sql \<noteq> ''go.k6.io/k6''"
proof -
  have out: "filterExtensions example_catalog '''' '''' = [ext_dashboard, ext_untiered, ext_sql]"
    by (simp add: filterExtensions_def example_defs option_defs)
  then have "ext_sql \<in> set (filterExtensions example_catalog '''' '''')"
    by simp
  from filterExtensions_excludes_self [OF this] out show ?thesis
    by (simp add: example_catalog_def)
qed

text \<open>
  C6: filtering by a kind and a tier together is the conjunction of the two filters: for
  every catalog the descriptors returned for a kind \<open>k\<close> and a tier \<open>t\<close> are exactly those
  returned both for \<open>k\<close> with no tier filter and for \<open>t\<close> with no kind filter (the option left
  unset is the empty string). This holds for every pair of option values, the six pairs of
  allowed literals among them.
\<close>

theorem filterExtensions_conjunction:
  "set (filterExtensions c k t) =
     set (filterExtensions c k '''') \<inter> set (filterExtensions c '''' t)"
proof -
  have "passes k t e \<longleftrightarrow> passes k '''' e \<and> passes '''' t e" for e
    unfolding passes_def using kind_filter_unset [of e] tier_filter_unset [of e] by blast
  then show ?thesis
    by (auto simp add: filterExtensions_filter)
qed

theorem filterExtensions_conjunction_witness:
  "filterExtensions example_catalog kindJavaScript tierOfficial = [ext_sql]
   \<and> filterExtensions example_catalog kindJavaScript '''' = [ext_untiered, ext_sql]
   \<and> filterExtensions example_catalog '''' tierOfficial = [ext_sql]
   \<and> set [ext_sql] = set [ext_untiered, ext_sql] \<inter> set [ext_sql]"
proof -
  have a: "filterExtensions example_catalog kindJavaScript tierOfficial = [ext_sql]"
    by (simp add: filterExtensions_def example_defs option_defs)
  have b: "filterExtensions example_catalog kindJavaScript '''' = [ext_untiered, ext_sql]"
    by (simp add: filterExtensions_def example_defs option_defs)
  have c: "filterExtensions example_catalog '''' tierOfficial = [ext_sql]"
    by (simp add: filterExtensions_def example_defs option_defs)
  from filterExtensions_conjunction [of example_catalog kindJavaScript tierOfficial] a b c
  show ?thesis by simp
qed

text \<open>
  C7: a descriptor whose tier is neither \<open>official\<close> nor \<open>community\<close> (the empty string
  included) fails the tier filter set to either value, so that \<open>filterExtensions\<close> with either
  tier never returns it, whatever the kind; with the tier option unset (or a nil receiver) it
  passes, and \<open>filterExtensions\<close> with no filter returns it when the catalog holds it and it is
  not the host tool's entry. Only the display coerces such a tier to community.
\<close>

theorem unrecognised_tier_filtering:
  assumes "Tier e \<noteq> ''official''" and "Tier e \<noteq> ''community''"
  shows "\<not> tier_filter (Some tierOfficial) e \<and> \<not> tier_filter (Some tierCommunity) e
    \<and> tier_filter (Some '''') e \<and> tier_filter None e
    \<and> e \<notin> set (filterExtensions c k tierOfficial)
    \<and> e \<notin> set (filterExtensions c k tierCommunity)
    \<and> ((key, e) \<in> set c \<and> Module e \<noteq> ''go.k6.io/k6''
          \<longrightarrow> e \<in> set (filterExtensions c '''' ''''))
    \<and> extensionTier e = ''Community''"
proof -
  have t: "\<not> tier_filter (Some tierOfficial) e" "\<not> tier_filter (Some tierCommunity) e"
    "tier_filter (Some '''') e" "tier_filter None e"
    using assms by (simp_all add: option_defs)
  have out: "e \<notin> set (filterExtensions c k tierOfficial)"
    "e \<notin> set (filterExtensions c k tierCommunity)"
    using t by (simp_all add: filterExtensions_filter passes_def
        del: kind_filter.simps tier_filter.simps)
  have inc: "(key, e) \<in> set c \<and> Module e \<noteq> ''go.k6.io/k6''
      \<longrightarrow> e \<in> set (filterExtensions c '''' '''')"
    using t(3) kind_filter_unset [of e]
    by (force simp add: filterExtensions_filter passes_def
        simp del: kind_filter.simps tier_filter.simps)
  have d: "extensionTier e = ''Community''"
    using assms by (simp add: extensionTier_def)
  from t out inc d show ?thesis by blast
qed

theorem unrecognised_tier_filtering_witness:
  "Tier ext_untiered = '''' \<and> \<not> tier_filter (Some tierOfficial) ext_untiered
   \<and> \<not> tier_filter (Some tierCommunity) ext_untiered
   \<and> filterExtensions example_catalog '''' tierOfficial = [ext_sql]
   \<and> filterExtensions example_catalog '''' tierCommunity = [ext_dashboard]
   \<and> ext_untiered \<in> set (filterExtensions example_catalog '''' '''')"
proof -
  have h1: "Tier ext_untiered \<noteq> ''official''" and h2: "Tier ext_untiered \<noteq> ''community''"
    by (simp_all add: ext_untiered_def)
  have m: "(''plain'', ext_untiered) \<in> set example_catalog
      \<and> Module ext_untiered \<noteq> ''go.k6.io/k6''"
    by (simp add: example_catalog_def) (simp add: ext_untiered_def)
  have a: "filterExtensions example_catalog '''' tierOfficial = [ext_sql]"
    by (simp add: filterExtensions_def example_defs option_defs)
  have b: "filterExtensions example_catalog '''' tierCommunity = [ext_dashboard]"
    by (simp add: filterExtensions_def example_defs option_defs)
  have t: "Tier ext_untiered = ''''"
    by (simp add: ext_untiered_def)
  from unrecognised_tier_filtering [OF h1 h2, of example_catalog "''''" "''plain''"] m a b t
  show ?thesis by blast
qed

section \<open>Properties of version resolution\<close>

lemma NewVersion_Some:
  "NewVersion parse s = Some ver \<longleftrightarrow>
     (\<exists>p. parse s = Some p \<and> ver = \<lparr>parsed = p, original = s\<rparr>)"
  by (auto simp: NewVersion_def split: option.splits)

lemma NewVersion_None: "NewVersion parse s = None \<longleftrightarrow> parse s = None"
  by (simp add: NewVersion_def split: option.splits)

lemma latestLoop_original:
  "original (latestLoop parse gt latest vs) = original latest
   \<or> original (latestLoop parse gt latest vs) \<in> set vs"
proof (induction vs arbitrary: latest)
  case Nil
  show ?case by simp
next
  case (Cons v vs)
  show ?case
  proof (cases "NewVersion parse v")
    case None
    with Cons.IH [of latest] show ?thesis by auto
  next
    case (Some ver)
    then have o: "original ver = v" by (auto simp: NewVersion_Some)
    show ?thesis
    proof (cases "GreaterThan gt ver latest")
      case True
      with Some o Cons.IH [of ver] show ?thesis by auto
    next
      case False
      with Some Cons.IH [of latest] show ?thesis by auto
    qed
  qed
qed

lemma latestLoop_wellParsed:
  "parse (original latest) = Some (parsed latest) \<Longrightarrow>
   parse (original (latestLoop parse gt latest vs)) = Some (parsed (latestLoop parse gt latest vs))"
proof (induction vs arbitrary: latest)
  case Nil
  then show ?case by simp
next
  case (Cons v vs)
  show ?case
  proof (cases "NewVersion parse v")
    case None
    with Cons show ?thesis by simp
  next
    case (Some ver)
    then have "parse (original ver) = Some (parsed ver)" by (auto simp: NewVersion_Some)
    with Some Cons show ?thesis by simp
  qed
qed

lemma latestLoop_not_below:
  assumes trans: "transp gt"
  shows "\<not> gt q (parsed latest) \<Longrightarrow> \<not> gt q (parsed (latestLoop parse gt latest vs))"
proof (induction vs arbitrary: latest)
  case Nil
  then show ?case by simp
next
  case (Cons v vs)
  show ?case
  proof (cases "NewVersion parse v")
    case None
    with Cons show ?thesis by simp
  next
    case (Some ver)
    show ?thesis
    proof (cases "GreaterThan gt ver latest")
      case True
      then have "gt (parsed ver) (parsed latest)" by (simp add: GreaterThan_def)
      with Cons.prems trans have "\<not> gt q (parsed ver)" by (blast dest: transpD)
      with Cons.IH [of ver] Some True show ?thesis by simp
    next
      case False
      with Cons Some show ?thesis by simp
    qed
  qed
qed

lemma latestLoop_maximal:
  assumes irrefl: "irreflp gt"
    and trans: "transp gt"
  shows "v \<in> set vs \<Longrightarrow> parse v = Some q
    \<Longrightarrow> \<not> gt q (parsed (latestLoop parse gt latest vs))"
proof (induction vs arbitrary: latest)
  case Nil
  then show ?case by simp
next
  case (Cons u us)
  show ?case
  proof (cases "v = u")
    case True
    with Cons.prems have nv: "NewVersion parse u = Some \<lparr>parsed = q, original = u\<rparr>"
      by (simp add: NewVersion_def)
    show ?thesis
    proof (cases "gt q (parsed latest)")
      case True
      have "\<not> gt q (parsed (latestLoop parse gt \<lparr>parsed = q, original = u\<rparr> us))"
        using latestLoop_not_below [OF trans, of q "\<lparr>parsed = q, original = u\<rparr>" parse us] irrefl
        by (simp add: irreflp_def)
      with nv True show ?thesis by (simp add: GreaterThan_def)
    next
      case False
      then have "\<not> gt q (parsed (latestLoop parse gt latest us))"
        by (rule latestLoop_not_below [OF trans])
      with nv False show ?thesis by (simp add: GreaterThan_def)
    qed
  next
    case False
    with Cons.prems have "v \<in> set us" by simp
    with Cons.IH Cons.prems(2) have "\<not> gt q (parsed (latestLoop parse gt l us))" for l
      by blast
    then show ?thesis by (simp split: option.splits)
  qed
qed

lemma latestLoop_skip:
  "parse u = None \<Longrightarrow>
   latestLoop parse gt latest (xs @ u # ys) = latestLoop parse gt latest (xs @ ys)"
  by (induction xs arbitrary: latest) (simp_all add: NewVersion_def split: option.splits)

lemma irreflp_semverGreater: "irreflp semverGreater"
  by (simp add: irreflp_def semverGreater_def)

lemma transp_semverGreater: "transp semverGreater"
  by (auto simp add: transp_def semverGreater_def)

text \<open>
  C2: when the first entry of a non-empty sequence parses, \<open>findLatest\<close> returns one of the
  entries of the sequence, as the string it is there; that entry parses, and no parseable
  entry of the sequence is greater than it, the entries that do not parse playing no part.
  The comparison of the version library is taken to be irreflexive and transitive, as an
  order of versions is.
\<close>

theorem findLatest_maximum:
  assumes irrefl: "irreflp gt"
    and trans: "transp gt"
    and first: "parse v0 = Some p0"
  shows "\<exists>p. findLatest parse gt (v0 # rest) \<in> set (v0 # rest)
    \<and> parse (findLatest parse gt (v0 # rest)) = Some p
    \<and> (\<forall>v \<in> set (v0 # rest). \<forall>q. parse v = Some q \<longrightarrow> \<not> gt q p)"
proof -
  define l0 where "l0 = \<lparr>parsed = p0, original = v0\<rparr>"
  define r where "r = latestLoop parse gt l0 rest"
  have nv: "NewVersion parse v0 = Some l0"
    using first by (simp add: NewVersion_def l0_def)
  then have res: "findLatest parse gt (v0 # rest) = original r"
    by (simp add: findLatest_def r_def)
  have "original r = original l0 \<or> original r \<in> set rest"
    unfolding r_def by (rule latestLoop_original)
  then have mem: "original r \<in> set (v0 # rest)"
    by (auto simp: l0_def)
  have "parse (original l0) = Some (parsed l0)"
    using first by (simp add: l0_def)
  then have wp: "parse (original r) = Some (parsed r)"
    unfolding r_def by (rule latestLoop_wellParsed)
  have max: "\<not> gt q (parsed r)" if "v \<in> set (v0 # rest)" and "parse v = Some q" for v q
  proof (cases "v = v0")
    case True
    with that first have "q = parsed l0" by (simp add: l0_def)
    moreover have "\<not> gt (parsed l0) (parsed r)"
      unfolding r_def using latestLoop_not_below [OF trans, of "parsed l0" l0 parse rest] irrefl
      by (simp add: irreflp_def)
    ultimately show ?thesis by simp
  next
    case False
    with that have "v \<in> set rest" by simp
    then show ?thesis
      unfolding r_def using that(2) by (rule latestLoop_maximal [OF irrefl trans])
  qed
  from res mem wp max show ?thesis by auto
qed

theorem findLatest_maximum_witness:
  "semverParse ''v0.4.4'' = Some (0, 4, 4, True, [])
   \<and> findLatest semverParse semverGreater [''v0.4.4'', ''latest'', ''v0.5.0-beta.1'', ''v0.4.3'']
       = ''v0.5.0-beta.1''
   \<and> (\<exists>p. semverParse ''v0.5.0-beta.1'' = Some p \<and> \<not> semverGreater (0, 4, 4, True, []) p)"
proof -
  have first: "semverParse ''v0.4.4'' = Some (0, 4, 4, True, [])"
    by code_simp
  have val: "findLatest semverParse semverGreater
      [''v0.4.4'', ''latest'', ''v0.5.0-beta.1'', ''v0.4.3''] = ''v0.5.0-beta.1''"
    by code_simp
  from findLatest_maximum [where gt = semverGreater and parse = semverParse
      and ?v0.0 = "''v0.4.4''" and rest = "[''latest'', ''v0.5.0-beta.1'', ''v0.4.3'']",
      OF irreflp_semverGreater transp_semverGreater first]
  obtain p where "semverParse ''v0.5.0-beta.1'' = Some p"
    and "\<forall>v \<in> set [''v0.4.4'', ''latest'', ''v0.5.0-beta.1'', ''v0.4.3''].
           \<forall>q. semverParse v = Some q \<longrightarrow> \<not> semverGreater q p"
    unfolding val by blast
  with first val show ?thesis by auto
qed

text \<open>
  C3: \<open>findLatest\<close> returns the empty string on the empty sequence, and on every sequence
  whose first entry does not parse, whatever follows it; an entry after the first that does
  not parse can be removed from the sequence without changing the result.
\<close>

theorem findLatest_short_circuit:
  "findLatest parse gt [] = ''''
   \<and> (parse v0 = None \<longrightarrow> findLatest parse gt (v0 # rest) = '''')
   \<and> (parse u = None \<longrightarrow>
        findLatest parse gt (v1 # xs @ u # ys) = findLatest parse gt (v1 # xs @ ys))"
proof -
  have empty: "findLatest parse gt [] = ''''"
    by (simp add: findLatest_def)
  have first: "findLatest parse gt (v0 # rest) = ''''" if "parse v0 = None"
    using that by (simp add: findLatest_def NewVersion_def)
  have later: "findLatest parse gt (v1 # xs @ u # ys) = findLatest parse gt (v1 # xs @ ys)"
    if "parse u = None"
  proof (cases "NewVersion parse v1")
    case None
    then show ?thesis by (simp add: findLatest_def)
  next
    case (Some l0)
    with that latestLoop_skip [of parse u gt l0 xs ys] show ?thesis
      by (simp add: findLatest_def)
  qed
  from empty first later show ?thesis by blast
qed

theorem findLatest_short_circuit_witness:
  "semverParse ''invalid'' = None
   \<and> findLatest semverParse semverGreater [''invalid'', ''v1.0.0''] = ''''
   \<and> findLatest semverParse semverGreater [''v1.0.0'', ''invalid''] = ''v1.0.0''
   \<and> findLatest semverParse semverGreater [''v1.0.0'', ''v1.2.0'', ''invalid'', ''v1.1.0'']
       = findLatest semverParse semverGreater [''v1.0.0'', ''v1.2.0'', ''v1.1.0'']"
proof -
  have bad: "semverParse ''invalid'' = None"
    by code_simp
  have kept: "findLatest semverParse semverGreater [''v1.0.0'', ''invalid''] = ''v1.0.0''"
    by code_simp
  from findLatest_short_circuit [where parse = semverParse and gt = semverGreater
      and ?v0.0 = "''invalid''" and rest = "[''v1.0.0'']" and u = "''invalid''"
      and ?v1.0 = "''v1.0.0''" and xs = "[''v1.2.0'']" and ys = "[''v1.1.0'']"] bad kept
  show ?thesis by simp
qed

text \<open>
  C10: the value \<open>findLatest\<close> returns is the empty string or one of the strings of its
  input, for every sequence and whatever the version library parses and however it compares.
\<close>

theorem findLatest_from_input:
  "findLatest parse gt vs = '''' \<or> findLatest parse gt vs \<in> set vs"
proof (cases vs)
  case Nil
  then show ?thesis by (simp add: findLatest_def)
next
  case (Cons v0 rest)
  show ?thesis
  proof (cases "NewVersion parse v0")
    case None
    with Cons show ?thesis by (simp add: findLatest_def)
  next
    case (Some l0)
    then have "original l0 = v0" by (auto simp: NewVersion_Some)
    with latestLoop_original [of parse gt l0 rest] Some Cons show ?thesis
      by (auto simp: findLatest_def)
  qed
qed

theorem findLatest_from_input_witness:
  "findLatest semverParse semverGreater [''v0.4.2'', ''v0.4.4'', ''v0.4.3''] = ''v0.4.4''
   \<and> findLatest semverParse semverGreater [''1.0'', ''v1.0.0'', ''1''] = ''1.0''
   \<and> findLatest semverParse semverGreater [''x'', ''v1.0.0''] = ''''"
proof -
  have a: "findLatest semverParse semverGreater [''v0.4.2'', ''v0.4.4'', ''v0.4.3''] = ''v0.4.4''"
    by code_simp
  have b: "findLatest semverParse semverGreater [''1.0'', ''v1.0.0'', ''1''] = ''1.0''"
    by code_simp
  have c: "findLatest semverParse semverGreater [''x'', ''v1.0.0''] = ''''"
    by code_simp
  from findLatest_from_input [of semverParse semverGreater "[''v0.4.2'', ''v0.4.4'', ''v0.4.3'']"]
    a b c
  show ?thesis by simp
qed

section \<open>Properties of the fetch\<close>






section \<open>Properties of sorting\<close>

subsection \<open>The insertion sort, for any comparison\<close>

lemma mset_bubble: "mset (bubble lt x front) = add_mset x (mset front)"
  by (induction front) simp_all

lemma set_bubble: "set (bubble lt x front) = insert x (set front)"
  by (induction front) auto

lemma mset_insertionLoop: "mset (insertionLoop lt front xs) = mset front + mset xs"
  by (induction xs arbitrary: front) (simp_all add: mset_bubble)

lemma mset_sort_Slice: "mset (sort_Slice lt xs) = mset xs"
  by (simp add: sort_Slice_def mset_insertionLoop)

text \<open>The part already ordered is held back to front: no element of it is less than one
  that follows it in \<open>front\<close>. The comparison has to be asymmetric, and its negation
  transitive.\<close>

lemma sorted_bubble:
  assumes asym: "asymp lt"
    and ntrans: "transp (\<lambda>a b. \<not> lt a b)"
  shows "sorted_wrt (\<lambda>a b. \<not> lt a b) front \<Longrightarrow> sorted_wrt (\<lambda>a b. \<not> lt a b) (bubble lt x front)"
proof (induction front)
  case Nil
  show ?case by simp
next
  case (Cons y ys)
  show ?case
  proof (cases "lt x y")
    case True
    from Cons have "sorted_wrt (\<lambda>a b. \<not> lt a b) (bubble lt x ys)" by simp
    moreover from True asym have "\<not> lt y x" by (blast dest: asympD)
    moreover from Cons.prems have "\<forall>b \<in> set ys. \<not> lt y b" by simp
    ultimately show ?thesis using True by (simp add: set_bubble)
  next
    case False
    from Cons.prems have "\<forall>b \<in> set ys. \<not> lt y b" by simp
    with False transpD [OF ntrans, of x y] have "\<forall>b \<in> set ys. \<not> lt x b" by blast
    with False Cons.prems show ?thesis by simp
  qed
qed

lemma sorted_insertionLoop:
  assumes asym: "asymp lt"
    and ntrans: "transp (\<lambda>a b. \<not> lt a b)"
  shows "sorted_wrt (\<lambda>a b. \<not> lt a b) front \<Longrightarrow>
    sorted_wrt (\<lambda>a b. \<not> lt b a) (insertionLoop lt front xs)"
proof (induction xs arbitrary: front)
  case Nil
  then show ?case by (simp add: sorted_wrt_rev)
next
  case (Cons x xs)
  from Cons.prems have "sorted_wrt (\<lambda>a b. \<not> lt a b) (bubble lt x front)"
    by (rule sorted_bubble [OF asym ntrans])
  then show ?case using Cons.IH by simp
qed

lemma sorted_sort_Slice:
  assumes asym: "asymp lt"
    and ntrans: "transp (\<lambda>a b. \<not> lt a b)"
  shows "sorted_wrt (\<lambda>a b. \<not> lt b a) (sort_Slice lt xs)"
  unfolding sort_Slice_def by (rule sorted_insertionLoop [OF asym ntrans]) simp



subsection \<open>The comparison of descriptors\<close>

lemma less_ext_asym: "asymp less_ext"
  by (rule asympI) (auto simp add: less_ext_def split: if_splits)

lemma less_ext_ntrans: "transp (\<lambda>a b. \<not> less_ext a b)"
  by (rule transpI) (auto simp add: less_ext_def split: if_splits)

lemma extensionType_values:
  "extensionType e \<in> {'''', ''JavaScript'', ''Output'', ''Subcommand''}"
  by (simp add: extensionType_def)

lemma extensionType_order:
  "('''' :: string) < ''JavaScript'' \<and> ''JavaScript'' < ''Output'' \<and> ''Output'' < ''Subcommand''
   \<and> ''community'' < ''official''"
  by simp

lemma not_less_ext_keys:
  "\<not> less_ext b a \<longleftrightarrow>
     Tier b < Tier a \<or> Tier a = Tier b \<and>
       (extensionType a < extensionType b \<or> extensionType a = extensionType b \<and> Module a \<le> Module b)"
  by (auto simp add: less_ext_def)

lemma key_le_antisym: "key_le p q \<Longrightarrow> key_le q p \<Longrightarrow> p = q"
  by (auto simp add: key_le_def split: prod.splits)

lemma not_less_ext_key_le: "\<not> less_ext b a \<longleftrightarrow> key_le (sort_key a) (sort_key b)"
  by (simp add: not_less_ext_keys key_le_def sort_key_def)

lemma sorted_wrt_mset_unique:
  assumes antisym: "\<And>a b. R a b \<Longrightarrow> R b a \<Longrightarrow> a = b"
  shows "sorted_wrt R xs \<Longrightarrow> sorted_wrt R ys \<Longrightarrow> mset xs = mset ys \<Longrightarrow> xs = ys"
proof (induction xs arbitrary: ys)
  case Nil
  then show ?case by simp
next
  case (Cons x xs)
  from Cons.prems(3) obtain y ys' where ys: "ys = y # ys'"
    by (cases ys) auto
  have "x \<in> set ys"
    using Cons.prems(3) by (metis list.set_intros(1) mset_eq_setD)
  with Cons.prems(2) ys have a: "x = y \<or> R y x" by auto
  have "y \<in> set (x # xs)"
    using Cons.prems(3) ys by (metis list.set_intros(1) mset_eq_setD)
  with Cons.prems(1) have b: "x = y \<or> R x y" by auto
  from a b antisym have eq: "x = y" by blast
  with Cons.prems ys have "xs = ys'"
    by (intro Cons.IH) simp_all
  with eq ys show ?case by simp
qed

text \<open>Whatever permutation of a slice a sort returns, if it is in order for \<open>less_ext\<close> then
  position by position it has the tier, the type and the module that the model's result has.\<close>

lemma sort_contract_keys:
  assumes "mset ys = mset xs" and "sorted_wrt (\<lambda>a b. \<not> less_ext b a) ys"
  shows "map sort_key ys = map sort_key (sortExtensions xs)"
proof (rule sorted_wrt_mset_unique [where R = key_le])
  show "a = b" if "key_le a b" and "key_le b a" for a b
    using that by (rule key_le_antisym)
  show "sorted_wrt key_le (map sort_key ys)"
    using assms(2) by (simp add: sorted_wrt_map not_less_ext_key_le)
  have "sorted_wrt (\<lambda>a b. \<not> less_ext b a) (sortExtensions xs)"
    unfolding sortExtensions_def by (rule sorted_sort_Slice [OF less_ext_asym less_ext_ntrans])
  then show "sorted_wrt key_le (map sort_key (sortExtensions xs))"
    by (simp add: sorted_wrt_map not_less_ext_key_le)
  show "mset (map sort_key ys) = mset (map sort_key (sortExtensions xs))"
  proof -
    have "mset (sortExtensions xs) = mset ys"
      using assms(1) by (simp add: sortExtensions_def mset_sort_Slice)
    then have "image_mset sort_key (mset (sortExtensions xs)) = image_mset sort_key (mset ys)"
      by simp
    then show ?thesis by simp
  qed
qed

text \<open>
  C1 as the specification words it fails: of two official descriptors, one a JavaScript
  extension and one with no facet, the specification's order puts the JavaScript extension
  first, and \<open>sortExtensions\<close> puts it last, although its module is the smaller one.
\<close>

theorem sortExtensions_untyped_first:
  "sortExtensions [ext_sql, ext_bare] = [ext_bare, ext_sql]
   \<and> Tier ext_sql = Tier ext_bare
   \<and> extensionType ext_sql = ''JavaScript'' \<and> extensionType ext_bare = ''''
   \<and> spec_less ext_sql ext_bare
   \<and> \<not> spec_ordered (sortExtensions [ext_sql, ext_bare])"
proof -
  have out: "sortExtensions [ext_sql, ext_bare] = [ext_bare, ext_sql]"
    by (simp add: sortExtensions_def sort_Slice_def less_ext_def extensionType_def example_defs)
  have t: "Tier ext_sql = Tier ext_bare"
    by (simp add: example_defs)
  have k: "extensionType ext_sql = ''JavaScript''" "extensionType ext_bare = ''''"
    by (simp_all add: extensionType_def example_defs)
  have s: "spec_less ext_sql ext_bare"
    by (simp add: spec_less_def spec_kind_rank_def example_defs)
  from out t k s show ?thesis by (simp add: spec_ordered_def)
qed

text \<open>
  C1, as the code has it: \<open>sortExtensions\<close> permutes the descriptors into an order by three
  keys. The first is the tier string, descending, so that no descriptor of tier
  \<open>community\<close> precedes one of tier \<open>official\<close>. The second is the string \<open>extensionType\<close>
  gives, ascending; it is one of four, in the order: the empty string of a descriptor with no
  facet, then \<open>JavaScript\<close>, \<open>Output\<close>, \<open>Subcommand\<close>. The third is the module, ascending.
  So a descriptor with no facet comes first within its tier, not after the subcommands.
\<close>

theorem sortExtensions_order:
  "mset (sortExtensions xs) = mset xs
   \<and> sorted_wrt (\<lambda>a b. Tier b < Tier a \<or> Tier a = Tier b \<and>
        (extensionType a < extensionType b \<or>
         extensionType a = extensionType b \<and> Module a \<le> Module b)) (sortExtensions xs)
   \<and> sorted_wrt (\<lambda>a b. \<not> (Tier a = ''community'' \<and> Tier b = ''official'')) (sortExtensions xs)
   \<and> (\<forall>e \<in> set xs. extensionType e \<in> {'''', ''JavaScript'', ''Output'', ''Subcommand''})
   \<and> ('''' :: string) < ''JavaScript'' \<and> ''JavaScript'' < ''Output'' \<and> ''Output'' < ''Subcommand''"
proof -
  have perm: "mset (sortExtensions xs) = mset xs"
    by (simp add: sortExtensions_def mset_sort_Slice)
  have "sorted_wrt (\<lambda>a b. \<not> less_ext b a) (sortExtensions xs)"
    unfolding sortExtensions_def by (rule sorted_sort_Slice [OF less_ext_asym less_ext_ntrans])
  then have keys: "sorted_wrt (\<lambda>a b. Tier b < Tier a \<or> Tier a = Tier b \<and>
        (extensionType a < extensionType b \<or>
         extensionType a = extensionType b \<and> Module a \<le> Module b)) (sortExtensions xs)"
    by (simp add: not_less_ext_keys)
  have "\<not> (Tier a = ''community'' \<and> Tier b = ''official'')"
    if "Tier b < Tier a \<or> Tier a = Tier b \<and>
        (extensionType a < extensionType b \<or>
         extensionType a = extensionType b \<and> Module a \<le> Module b)" for a b
    using that by auto
  with keys have tiers:
    "sorted_wrt (\<lambda>a b. \<not> (Tier a = ''community'' \<and> Tier b = ''official'')) (sortExtensions xs)"
    by (rule sorted_wrt_mono_rel [rotated]) blast
  have vals: "\<forall>e \<in> set xs. extensionType e \<in> {'''', ''JavaScript'', ''Output'', ''Subcommand''}"
    using extensionType_values by blast
  from perm keys tiers vals extensionType_order show ?thesis by blast
qed

lemma sortExtensions_example:
  "sortExtensions example_extensions =
     [ext_bare, ext_sql, ext_output_official, ext_subcommand, ext_dashboard, ext_untiered]"
  by (simp add: example_extensions_def sortExtensions_def sort_Slice_def less_ext_def
      extensionType_def example_defs)

theorem sortExtensions_order_witness:
  "sortExtensions example_extensions =
     [ext_bare, ext_sql, ext_output_official, ext_subcommand, ext_dashboard, ext_untiered]
   \<and> mset [ext_bare, ext_sql, ext_output_official, ext_subcommand, ext_dashboard, ext_untiered]
       = mset example_extensions
   \<and> map Tier (sortExtensions example_extensions)
       = [''official'', ''official'', ''official'', ''official'', ''community'', '''']
   \<and> map extensionType (sortExtensions example_extensions)
       = ['''', ''JavaScript'', ''Output'', ''Subcommand'', ''Output'', ''JavaScript'']"
proof -
  have t: "map Tier [ext_bare, ext_sql, ext_output_official, ext_subcommand, ext_dashboard,
      ext_untiered] = [''official'', ''official'', ''official'', ''official'', ''community'', '''']"
    by (simp add: example_defs)
  have k: "map extensionType [ext_bare, ext_sql, ext_output_official, ext_subcommand,
      ext_dashboard, ext_untiered]
      = ['''', ''JavaScript'', ''Output'', ''Subcommand'', ''Output'', ''JavaScript'']"
    by (simp add: extensionType_def example_defs)
  from sortExtensions_order [of example_extensions] sortExtensions_example t k
  show ?thesis by simp
qed



end
